theory Spec2Isabelle
  imports Main
begin

section \<open>Data model of the drawing application (src/src/App.tsx)\<close>

text \<open>
  Coordinates, extents and the stroke width are JavaScript numbers in the source. They are
  modelled as unbounded integers: pointer and layout coordinates are whole pixels, and the
  handlers only add, subtract, negate and compare them, which is exact on such values.
\<close>

datatype ShapeType = Rectangle | Circle | Line

datatype LineStyle = Solid | Dashed

text \<open>
  The interface \<open>DrawingElement\<close>. The fields \<open>id\<close>, \<open>type\<close>, \<open>x\<close> and \<open>y\<close> carry the prefix
  \<open>el_\<close>; the optional fields \<open>x2\<close> and \<open>y2\<close> are \<open>None\<close> where the source has \<open>undefined\<close>.
\<close>

record DrawingElement =
  el_id :: string
  el_type :: ShapeType
  el_x :: int
  el_y :: int
  width :: int
  height :: int
  color :: string
  background :: string
  lineStyle :: LineStyle
  lineWidth :: int
  selected :: bool
  x2 :: "int option"
  y2 :: "int option"

text \<open>The appearance state; \<open>defaultAppearance\<close> is its initial value.\<close>

record Appearance =
  app_color :: string
  app_background :: string
  app_lineStyle :: LineStyle
  app_lineWidth :: int

definition defaultAppearance :: Appearance where
  "defaultAppearance =
     \<lparr>app_color = ''#000000'', app_background = ''#ffffff'',
      app_lineStyle = Solid, app_lineWidth = 2\<rparr>"

text \<open>The state \<open>offset\<close>, an object with the two fields \<open>x\<close> and \<open>y\<close>.\<close>

record Offset =
  off_x :: int
  off_y :: int

text \<open>
  The React state of the component \<open>App\<close>: one field for each \<open>useState\<close>. A handler is a
  function from the state of the render in which it was created to the state after its
  updates; the component is rendered again between two events.
\<close>

record AppState =
  elements :: "DrawingElement list"
  currentShape :: ShapeType
  drawing :: bool
  appearance :: Appearance
  dragId :: "string option"
  offset :: Offset

definition initialState :: AppState where
  "initialState =
     \<lparr>elements = [], currentShape = Rectangle, drawing = False,
      appearance = defaultAppearance, dragId = None,
      offset = \<lparr>off_x = 0, off_y = 0\<rparr>\<rparr>"

text \<open>
  What the handlers read from a mouse event: the client coordinates, whether the target of
  the event is the canvas element itself (\<open>e.target === canvasRef.current\<close>), and the
  coordinates of the native event relative to its target.
\<close>

record MouseEvent =
  clientX :: int
  clientY :: int
  targetIsCanvas :: bool
  offsetX :: int
  offsetY :: int

text \<open>The result of \<open>getBoundingClientRect\<close> on the canvas: its left and top edges.\<close>

record DOMRect =
  rect_left :: int
  rect_top :: int

section \<open>Geometry\<close>

definition CANVAS_WIDTH :: int where
  "CANVAS_WIDTH = 800"

definition CANVAS_HEIGHT :: int where
  "CANVAS_HEIGHT = 600"

definition clamp :: "int \<Rightarrow> int \<Rightarrow> int \<Rightarrow> int" where
  "clamp val lo hi = max lo (min hi val)"

section \<open>Drawing a shape\<close>

text \<open>
  \<open>handleMouseDown\<close>. The identifier of the new shape is \<open>Date.now().toString()\<close>, read
  from the clock; it is the argument \<open>now\<close>.
\<close>

definition handleMouseDown :: "AppState \<Rightarrow> MouseEvent \<Rightarrow> DOMRect \<Rightarrow> string \<Rightarrow> AppState" where
  "handleMouseDown s e rect now =
     (if \<not> targetIsCanvas e then s
      else
        let x = clientX e - rect_left rect;
            y = clientY e - rect_top rect
        in if currentShape s = Line then
             s\<lparr>elements := elements s @
                  [\<lparr>el_id = now, el_type = Line, el_x = x, el_y = y,
                    width = 0, height = 0,
                    color = app_color (appearance s),
                    background = app_background (appearance s),
                    lineStyle = app_lineStyle (appearance s),
                    lineWidth = app_lineWidth (appearance s),
                    selected = False, x2 = Some x, y2 = Some y\<rparr>],
               drawing := True\<rparr>
           else
             s\<lparr>elements := elements s @
                  [\<lparr>el_id = now, el_type = currentShape s, el_x = x, el_y = y,
                    width = 0, height = 0,
                    color = app_color (appearance s),
                    background = app_background (appearance s),
                    lineStyle = app_lineStyle (appearance s),
                    lineWidth = app_lineWidth (appearance s),
                    selected = False, x2 = None, y2 = None\<rparr>],
               drawing := True\<rparr>)"

text \<open>
  The updater that \<open>handleMouseMove\<close> passes to \<open>setElements\<close>, with the clamped pointer
  \<open>(x, y)\<close>: it rewrites the last element of the collection and returns an empty collection
  as it is.
\<close>

definition updateLast :: "int \<Rightarrow> int \<Rightarrow> DrawingElement list \<Rightarrow> DrawingElement list" where
  "updateLast x y prev =
     (if prev = [] then prev
      else
        let lst = last prev in
        if el_type lst = Line then
          let nx2 = clamp x 0 CANVAS_WIDTH;
              ny2 = clamp y 0 CANVAS_HEIGHT
          in butlast prev @ [lst\<lparr>x2 := Some nx2, y2 := Some ny2\<rparr>]
        else if el_type lst = Circle then
          let w0 = x - el_x lst;
              h0 = y - el_y lst;
              w1 = (if el_x lst + w0 > CANVAS_WIDTH then CANVAS_WIDTH - el_x lst else w0);
              h1 = (if el_y lst + h0 > CANVAS_HEIGHT then CANVAS_HEIGHT - el_y lst else h0);
              w2 = (if el_x lst + w1 < 0 then - el_x lst else w1);
              h2 = (if el_y lst + h1 < 0 then - el_y lst else h1)
          in butlast prev @ [lst\<lparr>width := w2, height := h2\<rparr>]
        else
          let w = clamp (x - el_x lst) (- el_x lst) (CANVAS_WIDTH - el_x lst);
              h = clamp (y - el_y lst) (- el_y lst) (CANVAS_HEIGHT - el_y lst)
          in butlast prev @ [lst\<lparr>width := w, height := h\<rparr>])"

definition handleMouseMove :: "AppState \<Rightarrow> MouseEvent \<Rightarrow> DOMRect \<Rightarrow> AppState" where
  "handleMouseMove s e rect =
     (if \<not> drawing s then s
      else
        let x = clamp (clientX e - rect_left rect) 0 CANVAS_WIDTH;
            y = clamp (clientY e - rect_top rect) 0 CANVAS_HEIGHT
        in s\<lparr>elements := updateLast x y (elements s)\<rparr>)"

definition handleMouseUp :: "AppState \<Rightarrow> AppState" where
  "handleMouseUp s = s\<lparr>drawing := False\<rparr>"

section \<open>Selecting and dragging\<close>

definition handleSelect :: "AppState \<Rightarrow> string \<Rightarrow> AppState" where
  "handleSelect s i =
     s\<lparr>elements := map (\<lambda>el. el\<lparr>selected := (el_id el = i)\<rparr>) (elements s)\<rparr>"

definition handleDragStart :: "AppState \<Rightarrow> MouseEvent \<Rightarrow> string \<Rightarrow> AppState" where
  "handleDragStart s e i =
     (case find (\<lambda>el. el_id el = i) (elements s) of
        None \<Rightarrow> s
      | Some el \<Rightarrow> s\<lparr>dragId := Some i, offset := \<lparr>off_x = offsetX e, off_y = offsetY e\<rparr>\<rparr>)"

text \<open>
  One axis of the position clamp of \<open>handleDragMove\<close> for a rectangle or a circle: the
  candidate coordinate \<open>c\<close>, the extent \<open>w\<close> of the shape on that axis and the canvas
  dimension. The source writes it once for \<open>x\<close> with the width and \<open>CANVAS_WIDTH\<close> and once
  for \<open>y\<close> with the height and \<open>CANVAS_HEIGHT\<close>.
\<close>

definition dragBoxAxis :: "int \<Rightarrow> int \<Rightarrow> int \<Rightarrow> int" where
  "dragBoxAxis c w dim =
     (if w \<ge> 0 then clamp c 0 (dim - w)
      else
        let n = clamp c 0 dim
        in if n + w < 0 then - w else n)"

text \<open>
  One axis of the endpoint adjustment of \<open>handleDragMove\<close> for a line: the clamped anchor
  coordinate \<open>n\<close>, the anchor and far coordinates of the line before the move and the
  canvas dimension. The result is the pair of the new anchor and the new far coordinate.
\<close>

definition dragLineAxis :: "int \<Rightarrow> int \<Rightarrow> int \<Rightarrow> int \<Rightarrow> int \<times> int" where
  "dragLineAxis n a far dim =
     (let d = n - a;
          n2 = clamp (far + d) 0 dim
      in if n2 < 0 then (clamp (n + (0 - (far + d))) 0 dim, 0)
         else if n2 > dim then (clamp (n + (dim - (far + d))) 0 dim, dim)
         else (n, n2))"

text \<open>
  The function that \<open>handleDragMove\<close> maps over the collection, for the dragged identifier
  \<open>d\<close> and the candidate origin \<open>(x, y)\<close>.
\<close>

definition dragElement :: "string \<Rightarrow> int \<Rightarrow> int \<Rightarrow> DrawingElement \<Rightarrow> DrawingElement" where
  "dragElement d x y el =
     (if el_id el \<noteq> d then el
      else
        let newX = (if el_type el \<noteq> Line then dragBoxAxis x (width el) CANVAS_WIDTH
                    else clamp x 0 CANVAS_WIDTH);
            newY = (if el_type el \<noteq> Line then dragBoxAxis y (height el) CANVAS_HEIGHT
                    else clamp y 0 CANVAS_HEIGHT);
            newEl = el\<lparr>el_x := newX, el_y := newY\<rparr>
        in if el_type el = Line then
             (case x2 el of
                None \<Rightarrow> newEl
              | Some ex2 \<Rightarrow>
                  (case y2 el of
                     None \<Rightarrow> newEl
                   | Some ey2 \<Rightarrow>
                       let px = dragLineAxis newX (el_x el) ex2 CANVAS_WIDTH;
                           py = dragLineAxis newY (el_y el) ey2 CANVAS_HEIGHT
                       in newEl\<lparr>el_x := fst px, el_y := fst py,
                                x2 := Some (snd px), y2 := Some (snd py)\<rparr>))
           else newEl)"

text \<open>
  \<open>handleDragMove\<close>. The test \<open>!dragId\<close> holds for \<open>null\<close> and for the empty string.
\<close>

definition handleDragMove :: "AppState \<Rightarrow> MouseEvent \<Rightarrow> DOMRect \<Rightarrow> AppState" where
  "handleDragMove s e rect =
     (case dragId s of
        None \<Rightarrow> s
      | Some d \<Rightarrow>
          if d = [] then s
          else
            let x = clientX e - rect_left rect - off_x (offset s);
                y = clientY e - rect_top rect - off_y (offset s)
            in s\<lparr>elements := map (dragElement d x y) (elements s)\<rparr>)"

definition handleDragEnd :: "AppState \<Rightarrow> AppState" where
  "handleDragEnd s = s\<lparr>dragId := None\<rparr>"

section \<open>Footprints and sequences of operations\<close>

text \<open>
  The far endpoint of a line as \<open>renderElement\<close> reads it: \<open>el.x2 ?? el.x\<close> and
  \<open>el.y2 ?? el.y\<close>.
\<close>

definition farX :: "DrawingElement \<Rightarrow> int" where
  "farX el = (case x2 el of None \<Rightarrow> el_x el | Some v \<Rightarrow> v)"

definition farY :: "DrawingElement \<Rightarrow> int" where
  "farY el = (case y2 el of None \<Rightarrow> el_y el | Some v \<Rightarrow> v)"

text \<open>
  The footprint of a shape lies within the canvas. For a rectangle or a circle the footprint
  spans from the anchor to the anchor plus the signed extent, in whichever order; for a line
  it is spanned by the two endpoints.
\<close>

definition within :: "int \<Rightarrow> int \<Rightarrow> bool" where
  "within v dim = (0 \<le> v \<and> v \<le> dim)"

definition inBounds :: "DrawingElement \<Rightarrow> bool" where
  "inBounds el =
     (if el_type el = Line then
        within (el_x el) CANVAS_WIDTH \<and> within (farX el) CANVAS_WIDTH \<and>
        within (el_y el) CANVAS_HEIGHT \<and> within (farY el) CANVAS_HEIGHT
      else
        0 \<le> min (el_x el) (el_x el + width el) \<and>
        max (el_x el) (el_x el + width el) \<le> CANVAS_WIDTH \<and>
        0 \<le> min (el_y el) (el_y el + height el) \<and>
        max (el_y el) (el_y el + height el) \<le> CANVAS_HEIGHT)"

text \<open>
  The operations of the specification, each with the arguments its handler reads.
  \<open>ChooseShape\<close> is the toolbar's \<open>setCurrentShape\<close>, which decides the kind of the next
  shape.
\<close>

datatype Op =
    Start MouseEvent DOMRect string
  | Update MouseEvent DOMRect
  | Commit
  | BeginDrag MouseEvent string
  | DragTo MouseEvent DOMRect
  | EndDrag
  | SelectAt string
  | ChooseShape ShapeType

fun applyOp :: "AppState \<Rightarrow> Op \<Rightarrow> AppState" where
  "applyOp s (Start e rect now) = handleMouseDown s e rect now"
| "applyOp s (Update e rect) = handleMouseMove s e rect"
| "applyOp s Commit = handleMouseUp s"
| "applyOp s (BeginDrag e i) = handleDragStart s e i"
| "applyOp s (DragTo e rect) = handleDragMove s e rect"
| "applyOp s EndDrag = handleDragEnd s"
| "applyOp s (SelectAt i) = handleSelect s i"
| "applyOp s (ChooseShape t) = s\<lparr>currentShape := t\<rparr>"

definition run :: "AppState \<Rightarrow> Op list \<Rightarrow> AppState" where
  "run s ops = foldl applyOp s ops"

text \<open>The pointer of a \<open>Start\<close> operation lies within the canvas.\<close>

fun startInCanvas :: "Op \<Rightarrow> bool" where
  "startInCanvas (Start e rect now) =
     (within (clientX e - rect_left rect) CANVAS_WIDTH \<and>
      within (clientY e - rect_top rect) CANVAS_HEIGHT)"
| "startInCanvas _ = True"

section \<open>Saving and loading\<close>

text \<open>
  \<open>handleSave\<close> stores \<open>JSON.stringify(elements)\<close> in the slot \<open>drawing\<close> of the local
  storage and \<open>handleLoad\<close> passes the slot to \<open>JSON.parse\<close>. Both functions belong to the
  JavaScript runtime. The stored text is represented by the JSON value it denotes, so the
  storage maps a key to a JSON value; a number is an integer, as the coordinates are.
\<close>

datatype json =
    JNull
  | JBool bool
  | JNumber int
  | JString string
  | JArray "json list"
  | JObject "(string \<times> json) list"

type_synonym Storage = "string \<rightharpoonup> json"

fun shapeTypeName :: "ShapeType \<Rightarrow> string" where
  "shapeTypeName Rectangle = ''rectangle''"
| "shapeTypeName Circle = ''circle''"
| "shapeTypeName Line = ''line''"

fun lineStyleName :: "LineStyle \<Rightarrow> string" where
  "lineStyleName Solid = ''solid''"
| "lineStyleName Dashed = ''dashed''"

definition shapeTypeOfName :: "string \<Rightarrow> ShapeType option" where
  "shapeTypeOfName n =
     (if n = ''rectangle'' then Some Rectangle
      else if n = ''circle'' then Some Circle
      else if n = ''line'' then Some Line
      else None)"

definition lineStyleOfName :: "string \<Rightarrow> LineStyle option" where
  "lineStyleOfName n =
     (if n = ''solid'' then Some Solid
      else if n = ''dashed'' then Some Dashed
      else None)"

text \<open>
  The JSON value of one element: an object with one member for each property of the element.
  \<open>JSON.stringify\<close> leaves out a property whose value is \<open>undefined\<close>.
\<close>

definition elementToJSON :: "DrawingElement \<Rightarrow> json" where
  "elementToJSON el =
     JObject
       ([(''id'', JString (el_id el)),
         (''type'', JString (shapeTypeName (el_type el))),
         (''x'', JNumber (el_x el)),
         (''y'', JNumber (el_y el)),
         (''width'', JNumber (width el)),
         (''height'', JNumber (height el)),
         (''color'', JString (color el)),
         (''background'', JString (background el)),
         (''lineStyle'', JString (lineStyleName (lineStyle el))),
         (''lineWidth'', JNumber (lineWidth el)),
         (''selected'', JBool (selected el))]
        @ (case x2 el of None \<Rightarrow> [] | Some v \<Rightarrow> [(''x2'', JNumber v)])
        @ (case y2 el of None \<Rightarrow> [] | Some v \<Rightarrow> [(''y2'', JNumber v)]))"

text \<open>Reading the members of a parsed object at the types that \<open>DrawingElement\<close> declares.\<close>

definition stringMember :: "(string \<times> json) list \<Rightarrow> string \<Rightarrow> string option" where
  "stringMember kvs k = (case map_of kvs k of Some (JString v) \<Rightarrow> Some v | _ \<Rightarrow> None)"

definition numberMember :: "(string \<times> json) list \<Rightarrow> string \<Rightarrow> int option" where
  "numberMember kvs k = (case map_of kvs k of Some (JNumber v) \<Rightarrow> Some v | _ \<Rightarrow> None)"

definition boolMember :: "(string \<times> json) list \<Rightarrow> string \<Rightarrow> bool option" where
  "boolMember kvs k = (case map_of kvs k of Some (JBool v) \<Rightarrow> Some v | _ \<Rightarrow> None)"

text \<open>An optional number: a missing member reads as \<open>undefined\<close>.\<close>

definition optionalNumberMember :: "(string \<times> json) list \<Rightarrow> string \<Rightarrow> int option option" where
  "optionalNumberMember kvs k =
     (case map_of kvs k of
        None \<Rightarrow> Some None
      | Some (JNumber v) \<Rightarrow> Some (Some v)
      | _ \<Rightarrow> None)"

text \<open>
  The element that a parsed JSON value is when it is read as a \<open>DrawingElement\<close>; \<open>None\<close>
  when the value does not have that type.
\<close>

definition elementFromJSON :: "json \<Rightarrow> DrawingElement option" where
  "elementFromJSON j =
     (case j of
        JObject kvs \<Rightarrow>
          Option.bind (stringMember kvs ''id'') (\<lambda>i.
          Option.bind (Option.bind (stringMember kvs ''type'') shapeTypeOfName) (\<lambda>t.
          Option.bind (numberMember kvs ''x'') (\<lambda>vx.
          Option.bind (numberMember kvs ''y'') (\<lambda>vy.
          Option.bind (numberMember kvs ''width'') (\<lambda>w.
          Option.bind (numberMember kvs ''height'') (\<lambda>h.
          Option.bind (stringMember kvs ''color'') (\<lambda>c.
          Option.bind (stringMember kvs ''background'') (\<lambda>b.
          Option.bind (Option.bind (stringMember kvs ''lineStyle'') lineStyleOfName) (\<lambda>ls.
          Option.bind (numberMember kvs ''lineWidth'') (\<lambda>lw.
          Option.bind (boolMember kvs ''selected'') (\<lambda>sel.
          Option.bind (optionalNumberMember kvs ''x2'') (\<lambda>vx2.
          Option.bind (optionalNumberMember kvs ''y2'') (\<lambda>vy2.
            Some \<lparr>el_id = i, el_type = t, el_x = vx, el_y = vy, width = w, height = h,
                  color = c, background = b, lineStyle = ls, lineWidth = lw,
                  selected = sel, x2 = vx2, y2 = vy2\<rparr>)))))))))))))
      | _ \<Rightarrow> None)"

definition handleSave :: "AppState \<Rightarrow> Storage \<Rightarrow> Storage" where
  "handleSave s st = st(''drawing'' \<mapsto> JArray (map elementToJSON (elements s)))"

text \<open>
  \<open>handleLoad\<close>. An empty slot leaves the state as it is. The result is \<open>None\<close> when the
  stored value is not an array of elements: the source stores such a value all the same,
  outside the declared type of the state.
\<close>

definition handleLoad :: "AppState \<Rightarrow> Storage \<Rightarrow> AppState option" where
  "handleLoad s st =
     (case st ''drawing'' of
        None \<Rightarrow> Some s
      | Some (JArray js) \<Rightarrow>
          (case those (map elementFromJSON js) of
             None \<Rightarrow> None
           | Some els \<Rightarrow> Some (s\<lparr>elements := els\<rparr>))
      | Some _ \<Rightarrow> None)"

section \<open>The extent clamp as the specification words it\<close>

text \<open>
  \<open>clampExtentToCanvas\<close> on one axis, following the specification's policy: the edge of the
  shape opposite to its anchor, \<open>anchor + extent\<close>, is first capped at the canvas dimension
  and then floored at \<open>0\<close>; the floor is applied last and so has the last word. The result
  is the signed extent from the anchor to that edge.
\<close>

definition clampExtentToCanvas :: "int \<Rightarrow> int \<Rightarrow> int \<Rightarrow> int" where
  "clampExtentToCanvas anchor far dim =
     (let capped = min (anchor + (far - anchor)) dim;
          floored = max capped 0
      in floored - anchor)"

section \<open>Pointer events used in the scenarios\<close>

text \<open>A pointer event on the canvas background at the client position \<open>(px, py)\<close>.\<close>

definition canvasPointer :: "int \<Rightarrow> int \<Rightarrow> MouseEvent" where
  "canvasPointer px py =
     \<lparr>clientX = px, clientY = py, targetIsCanvas = True, offsetX = px, offsetY = py\<rparr>"

text \<open>
  A pointer event on a rendered shape at the client position \<open>(px, py)\<close>, which is
  \<open>(ox, oy)\<close> in the coordinates of the shape.
\<close>

definition shapePointer :: "int \<Rightarrow> int \<Rightarrow> int \<Rightarrow> int \<Rightarrow> MouseEvent" where
  "shapePointer px py ox oy =
     \<lparr>clientX = px, clientY = py, targetIsCanvas = False, offsetX = ox, offsetY = oy\<rparr>"

text \<open>A canvas whose top left corner is the origin of the client coordinates.\<close>

definition canvasAtOrigin :: DOMRect where
  "canvasAtOrigin = \<lparr>rect_left = 0, rect_top = 0\<rparr>"

section \<open>The bounds invariant\<close>

lemma clamp_within: "0 \<le> dim \<Longrightarrow> within (clamp v 0 dim) dim"
  by (simp add: clamp_def within_def)

lemma dragBoxAxis_pos:
  "0 \<le> w \<Longrightarrow> w \<le> dim \<Longrightarrow> 0 \<le> dragBoxAxis c w dim \<and> dragBoxAxis c w dim + w \<le> dim"
  by (simp add: dragBoxAxis_def clamp_def)

lemma dragBoxAxis_neg:
  "w < 0 \<Longrightarrow> - w \<le> dim \<Longrightarrow> 0 \<le> dragBoxAxis c w dim + w \<and> dragBoxAxis c w dim \<le> dim"
  by (auto simp: dragBoxAxis_def clamp_def Let_def max_def min_def)

lemma dragBoxAxis_span:
  assumes "0 \<le> min a (a + w)" "max a (a + w) \<le> dim"
  shows "0 \<le> min (dragBoxAxis c w dim) (dragBoxAxis c w dim + w) \<and>
         max (dragBoxAxis c w dim) (dragBoxAxis c w dim + w) \<le> dim"
proof (cases "0 \<le> w")
  case True
  with assms have "w \<le> dim" by simp
  from dragBoxAxis_pos [OF True this, of c] True show ?thesis by simp
next
  case False
  then have n: "w < 0" by simp
  with assms have "- w \<le> dim" by simp
  from dragBoxAxis_neg [OF n this, of c] n show ?thesis by simp
qed

lemma dragLineAxis_within:
  "0 \<le> dim \<Longrightarrow> within n dim \<Longrightarrow>
   within (fst (dragLineAxis n a far dim)) dim \<and> within (snd (dragLineAxis n a far dim)) dim"
  by (simp add: dragLineAxis_def Let_def clamp_def within_def)

lemma inBounds_dragElement_box:
  assumes "inBounds el" "el_type el \<noteq> Line"
  shows "inBounds (dragElement d x y el)"
proof (cases "el_id el = d")
  case False
  with assms show ?thesis by (simp add: dragElement_def)
next
  case True
  have e: "dragElement d x y el =
        el\<lparr>el_x := dragBoxAxis x (width el) CANVAS_WIDTH,
           el_y := dragBoxAxis y (height el) CANVAS_HEIGHT\<rparr>"
    using True assms(2) by (simp add: dragElement_def Let_def)
  from assms have
    "0 \<le> min (el_x el) (el_x el + width el)" "max (el_x el) (el_x el + width el) \<le> CANVAS_WIDTH"
    "0 \<le> min (el_y el) (el_y el + height el)" "max (el_y el) (el_y el + height el) \<le> CANVAS_HEIGHT"
    by (simp_all add: inBounds_def)
  from dragBoxAxis_span [OF this(1,2), of x] dragBoxAxis_span [OF this(3,4), of y] assms(2)
  show ?thesis unfolding e by (simp add: inBounds_def)
qed

lemma inBounds_dragElement_line:
  assumes "inBounds el" "el_type el = Line"
  shows "inBounds (dragElement d x y el)"
proof (cases "el_id el = d")
  case False
  with assms show ?thesis by (simp add: dragElement_def)
next
  case True
  have w: "0 \<le> CANVAS_WIDTH" "0 \<le> CANVAS_HEIGHT"
    by (simp_all add: CANVAS_WIDTH_def CANVAS_HEIGHT_def)
  note cx = clamp_within [OF w(1), of x] and cy = clamp_within [OF w(2), of y]
  note lx = dragLineAxis_within [OF w(1) cx] and ly = dragLineAxis_within [OF w(2) cy]
  show ?thesis
  proof (cases "x2 el")
    case None
    then show ?thesis using True assms cx cy
      by (simp add: dragElement_def Let_def inBounds_def farX_def farY_def split: option.splits)
  next
    case sx: (Some ex2)
    show ?thesis
    proof (cases "y2 el")
      case None
      then show ?thesis using True assms cx cy sx
        by (simp add: dragElement_def Let_def inBounds_def farX_def farY_def)
    next
      case sy: (Some ey2)
      show ?thesis using True assms sx sy lx [of "el_x el" ex2] ly [of "el_y el" ey2]
        by (simp add: dragElement_def Let_def inBounds_def farX_def farY_def)
    qed
  qed
qed

lemma inBounds_dragElement: "inBounds el \<Longrightarrow> inBounds (dragElement d x y el)"
  by (cases "el_type el = Line") (simp_all add: inBounds_dragElement_line inBounds_dragElement_box)

lemma inBounds_handleDragMove:
  "list_all inBounds (elements s) \<Longrightarrow> list_all inBounds (elements (handleDragMove s e rect))"
  by (simp add: handleDragMove_def Let_def list_all_iff inBounds_dragElement split: option.splits)

lemma extent_within:
  "within a dim \<Longrightarrow> within (a + clamp (c - a) (- a) (dim - a)) dim"
  by (auto simp: within_def clamp_def max_def min_def)

lemma inBounds_updateLast_elem:
  assumes "inBounds lst" "prev \<noteq> []" "lst = last prev"
  shows "inBounds (last (updateLast (clamp a 0 CANVAS_WIDTH) (clamp b 0 CANVAS_HEIGHT) prev))"
proof -
  have w: "0 \<le> CANVAS_WIDTH" "0 \<le> CANVAS_HEIGHT"
    by (simp_all add: CANVAS_WIDTH_def CANVAS_HEIGHT_def)
  note cx = clamp_within [OF w(1), of a] and cy = clamp_within [OF w(2), of b]
  note ccx = clamp_within [OF w(1), of "clamp a 0 CANVAS_WIDTH"]
   and ccy = clamp_within [OF w(2), of "clamp b 0 CANVAS_HEIGHT"]
  consider (l) "el_type lst = Line" | (c) "el_type lst = Circle" | (r) "el_type lst = Rectangle"
    by (cases "el_type lst") auto
  then show ?thesis
  proof cases
    case l
    then show ?thesis using assms ccx ccy
      by (simp add: updateLast_def Let_def inBounds_def farX_def farY_def)
  next
    case c
    then show ?thesis using assms cx cy
      by (simp add: updateLast_def Let_def inBounds_def within_def)
  next
    case r
    from assms r have ax: "within (el_x lst) CANVAS_WIDTH" and ay: "within (el_y lst) CANVAS_HEIGHT"
      by (simp_all add: inBounds_def within_def)
    from extent_within [OF ax, of "clamp a 0 CANVAS_WIDTH"]
         extent_within [OF ay, of "clamp b 0 CANVAS_HEIGHT"] ax ay r assms(2,3)
    show ?thesis
      by (simp add: updateLast_def Let_def inBounds_def within_def)
  qed
qed

lemma updateLast_butlast:
  "butlast (updateLast x y prev) = butlast prev"
  by (simp add: updateLast_def Let_def)

lemma updateLast_Nil: "(updateLast x y prev = []) = (prev = [])"
  by (simp add: updateLast_def Let_def)

lemma list_all_snoc_iff:
  "xs \<noteq> [] \<Longrightarrow> list_all P xs = (list_all P (butlast xs) \<and> P (last xs))"
  by (induction xs) auto

lemma inBounds_updateLast:
  assumes "list_all inBounds prev"
  shows "list_all inBounds (updateLast (clamp a 0 CANVAS_WIDTH) (clamp b 0 CANVAS_HEIGHT) prev)"
proof (cases "prev = []")
  case True
  then show ?thesis by (simp add: updateLast_def)
next
  case False
  with assms have "inBounds (last prev)" "list_all inBounds (butlast prev)"
    by (simp_all add: list_all_snoc_iff)
  with False inBounds_updateLast_elem [OF this(1) False refl, of a b] show ?thesis
    by (simp add: list_all_snoc_iff [of "updateLast x y prev" for x y] updateLast_Nil updateLast_butlast)
qed

lemma inBounds_handleMouseMove:
  "list_all inBounds (elements s) \<Longrightarrow> list_all inBounds (elements (handleMouseMove s e rect))"
  by (simp add: handleMouseMove_def Let_def inBounds_updateLast)

lemma inBounds_handleMouseDown:
  assumes "list_all inBounds (elements s)"
    "within (clientX e - rect_left rect) CANVAS_WIDTH"
    "within (clientY e - rect_top rect) CANVAS_HEIGHT"
  shows "list_all inBounds (elements (handleMouseDown s e rect now))"
  using assms
  by (simp add: handleMouseDown_def Let_def inBounds_def farX_def farY_def within_def)

lemma inBounds_selected: "inBounds (el\<lparr>selected := b\<rparr>) = inBounds el"
  by (simp add: inBounds_def farX_def farY_def split: option.split)

lemma inBounds_handleSelect:
  "list_all inBounds (elements s) \<Longrightarrow> list_all inBounds (elements (handleSelect s i))"
  by (simp add: handleSelect_def list_all_iff inBounds_selected)

lemma inBounds_handleDragStart:
  "list_all inBounds (elements s) \<Longrightarrow> list_all inBounds (elements (handleDragStart s e i))"
  by (simp add: handleDragStart_def split: option.splits)

lemma inBounds_applyOp:
  "list_all inBounds (elements s) \<Longrightarrow> startInCanvas op \<Longrightarrow>
   list_all inBounds (elements (applyOp s op))"
  by (cases op)
     (simp_all add: inBounds_handleMouseDown inBounds_handleMouseMove inBounds_handleDragMove
        inBounds_handleSelect inBounds_handleDragStart handleMouseUp_def handleDragEnd_def)

lemma inBounds_run:
  "list_all inBounds (elements s) \<Longrightarrow> list_all startInCanvas ops \<Longrightarrow>
   list_all inBounds (elements (run s ops))"
  unfolding run_def
  by (induction ops arbitrary: s) (simp_all add: inBounds_applyOp)

lemma list_all_take: "list_all P xs \<Longrightarrow> list_all P (take n xs)"
  by (auto simp: list_all_iff dest: in_set_takeD)

text \<open>
  Claim C1. Start from a collection whose shapes all have their footprint within the canvas
  (the empty collection of the initial state is one) and apply any sequence of operations in
  which the pointer of every \<open>Start\<close> lies within the canvas. After each operation of the
  sequence, that is after every prefix of it, the footprint of every shape lies within
  \<open>[0,800] \<times> [0,600]\<close>: the span from the anchor to the anchor plus the signed extent of a
  rectangle or a circle, and both endpoints of a line.
\<close>

theorem bounds_invariant:
  "list_all inBounds (elements s) \<Longrightarrow> list_all startInCanvas ops \<Longrightarrow>
   list_all inBounds (elements (run s (take n ops)))"
  by (rule inBounds_run) (simp_all add: list_all_take)

theorem bounds_invariant_witness:
  "list_all inBounds (elements initialState) \<and>
   list_all startInCanvas
     [ChooseShape Circle,
      Start (canvasPointer 300 300) canvasAtOrigin ''1'',
      Update (canvasPointer 900 (- 20)) canvasAtOrigin,
      Commit,
      BeginDrag (shapePointer 280 280 20 20) ''1'',
      DragTo (canvasPointer 15 15) canvasAtOrigin,
      EndDrag] \<and>
   list_all inBounds (elements (run initialState (take 6
     [ChooseShape Circle,
      Start (canvasPointer 300 300) canvasAtOrigin ''1'',
      Update (canvasPointer 900 (- 20)) canvasAtOrigin,
      Commit,
      BeginDrag (shapePointer 280 280 20 20) ''1'',
      DragTo (canvasPointer 15 15) canvasAtOrigin,
      EndDrag])))"
proof -
  have a: "list_all inBounds (elements initialState)"
    by (simp add: initialState_def)
  have b: "list_all startInCanvas
     [ChooseShape Circle,
      Start (canvasPointer 300 300) canvasAtOrigin ''1'',
      Update (canvasPointer 900 (- 20)) canvasAtOrigin,
      Commit,
      BeginDrag (shapePointer 280 280 20 20) ''1'',
      DragTo (canvasPointer 15 15) canvasAtOrigin,
      EndDrag]"
    by (simp add: within_def canvasPointer_def canvasAtOrigin_def CANVAS_WIDTH_def CANVAS_HEIGHT_def)
  from a b bounds_invariant [OF a b, of 6] show ?thesis by blast
qed

lemmas scenario_defs = handleMouseDown_def handleMouseMove_def handleMouseUp_def handleSelect_def
  handleDragStart_def handleDragMove_def handleDragEnd_def updateLast_def dragElement_def
  dragBoxAxis_def dragLineAxis_def clamp_def CANVAS_WIDTH_def CANVAS_HEIGHT_def
  canvasPointer_def shapePointer_def canvasAtOrigin_def initialState_def defaultAppearance_def
  run_def Let_def

section \<open>Events that arrive out of order\<close>

text \<open>
  Claim C9. \<open>handleDragMove\<close> returns the state it was given, collection and session state
  alike, when no drag is active. \<open>handleMouseMove\<close> returns the state it was given when no
  drawing is in progress, and also when the collection is empty, whatever the drawing flag
  says. Both handlers are total.
\<close>

theorem invalid_order_noop:
  "(dragId s = None \<longrightarrow> handleDragMove s e rect = s) \<and>
   (\<not> drawing s \<longrightarrow> handleMouseMove s e rect = s) \<and>
   (elements s = [] \<longrightarrow> handleMouseMove s e rect = s)"
  by (simp add: handleDragMove_def handleMouseMove_def updateLast_def Let_def)

theorem invalid_order_noop_witness:
  "elements (run initialState
      [Start (canvasPointer 100 100) canvasAtOrigin ''1'',
       Update (canvasPointer 160 150) canvasAtOrigin, Commit,
       BeginDrag (shapePointer 110 110 10 10) ''1'', EndDrag]) =
     [\<lparr>el_id = ''1'', el_type = Rectangle, el_x = 100, el_y = 100, width = 60, height = 50,
       color = ''#000000'', background = ''#ffffff'', lineStyle = Solid, lineWidth = 2,
       selected = False, x2 = None, y2 = None\<rparr>] \<and>
   dragId (run initialState
      [Start (canvasPointer 100 100) canvasAtOrigin ''1'',
       Update (canvasPointer 160 150) canvasAtOrigin, Commit,
       BeginDrag (shapePointer 110 110 10 10) ''1'', EndDrag]) = None \<and>
   \<not> drawing (run initialState
      [Start (canvasPointer 100 100) canvasAtOrigin ''1'',
       Update (canvasPointer 160 150) canvasAtOrigin, Commit,
       BeginDrag (shapePointer 110 110 10 10) ''1'', EndDrag]) \<and>
   handleDragMove (run initialState
      [Start (canvasPointer 100 100) canvasAtOrigin ''1'',
       Update (canvasPointer 160 150) canvasAtOrigin, Commit,
       BeginDrag (shapePointer 110 110 10 10) ''1'', EndDrag])
      (canvasPointer 40 50) canvasAtOrigin =
    run initialState
      [Start (canvasPointer 100 100) canvasAtOrigin ''1'',
       Update (canvasPointer 160 150) canvasAtOrigin, Commit,
       BeginDrag (shapePointer 110 110 10 10) ''1'', EndDrag] \<and>
   handleMouseMove (run initialState
      [Start (canvasPointer 100 100) canvasAtOrigin ''1'',
       Update (canvasPointer 160 150) canvasAtOrigin, Commit,
       BeginDrag (shapePointer 110 110 10 10) ''1'', EndDrag])
      (canvasPointer 40 50) canvasAtOrigin =
    run initialState
      [Start (canvasPointer 100 100) canvasAtOrigin ''1'',
       Update (canvasPointer 160 150) canvasAtOrigin, Commit,
       BeginDrag (shapePointer 110 110 10 10) ''1'', EndDrag] \<and>
   elements (initialState\<lparr>drawing := True\<rparr>) = [] \<and>
   handleMouseMove (initialState\<lparr>drawing := True\<rparr>) (canvasPointer 40 50) canvasAtOrigin =
     initialState\<lparr>drawing := True\<rparr>"
proof -
  let ?s = "run initialState
      [Start (canvasPointer 100 100) canvasAtOrigin ''1'',
       Update (canvasPointer 160 150) canvasAtOrigin, Commit,
       BeginDrag (shapePointer 110 110 10 10) ''1'', EndDrag]"
  have els: "elements ?s =
     [\<lparr>el_id = ''1'', el_type = Rectangle, el_x = 100, el_y = 100, width = 60, height = 50,
       color = ''#000000'', background = ''#ffffff'', lineStyle = Solid, lineWidth = 2,
       selected = False, x2 = None, y2 = None\<rparr>]"
    by (simp add: scenario_defs)
  have nodrag: "dragId ?s = None"
    by (simp add: scenario_defs)
  have nodraw: "\<not> drawing ?s"
    by (simp add: scenario_defs)
  have empty: "elements (initialState\<lparr>drawing := True\<rparr>) = []"
    by (simp add: initialState_def)
  note t = invalid_order_noop [of ?s "canvasPointer 40 50" canvasAtOrigin]
  note u = invalid_order_noop [of "initialState\<lparr>drawing := True\<rparr>" "canvasPointer 40 50"
      canvasAtOrigin]
  from t nodrag have a: "handleDragMove ?s (canvasPointer 40 50) canvasAtOrigin = ?s"
    by blast
  from t nodraw have b: "handleMouseMove ?s (canvasPointer 40 50) canvasAtOrigin = ?s"
    by blast
  from u empty have c: "handleMouseMove (initialState\<lparr>drawing := True\<rparr>) (canvasPointer 40 50)
      canvasAtOrigin = initialState\<lparr>drawing := True\<rparr>"
    by blast
  from els nodrag nodraw a b empty c show ?thesis
    by blast
qed

section \<open>Selection\<close>

lemma unknown_id_iff: "(i \<notin> set (map el_id els)) = list_all (\<lambda>el. el_id el \<noteq> i) els"
  by (auto simp: list_all_iff)

text \<open>
  Claim C10. When the identifier names no shape of the collection, \<open>handleSelect\<close> clears
  the selected flag of every shape and changes nothing else; no shape is selected
  afterwards, however many shapes the collection has.
\<close>

theorem select_unknown_clears:
  "i \<notin> set (map el_id (elements s)) \<Longrightarrow>
   handleSelect s i = s\<lparr>elements := map (\<lambda>el. el\<lparr>selected := False\<rparr>) (elements s)\<rparr> \<and>
   filter selected (elements (handleSelect s i)) = []"
  unfolding unknown_id_iff
  by (auto simp: handleSelect_def list_all_iff filter_empty_conv)

theorem select_unknown_clears_witness:
  "filter selected (elements (run initialState
      [Start (canvasPointer 100 100) canvasAtOrigin ''1'', Commit, SelectAt ''1''])) \<noteq> [] \<and>
   ''7'' \<notin> set (map el_id (elements (run initialState
      [Start (canvasPointer 100 100) canvasAtOrigin ''1'', Commit, SelectAt ''1'']))) \<and>
   elements (handleSelect (run initialState
      [Start (canvasPointer 100 100) canvasAtOrigin ''1'', Commit, SelectAt ''1'']) ''7'') \<noteq> [] \<and>
   filter selected (elements (handleSelect (run initialState
      [Start (canvasPointer 100 100) canvasAtOrigin ''1'', Commit, SelectAt ''1'']) ''7'')) = []"
proof -
  let ?s = "run initialState
      [Start (canvasPointer 100 100) canvasAtOrigin ''1'', Commit, SelectAt ''1'']"
  have h: "''7'' \<notin> set (map el_id (elements ?s))"
    by (simp add: scenario_defs)
  have a: "filter selected (elements ?s) \<noteq> []"
    by (simp add: scenario_defs)
  have b: "elements (handleSelect ?s ''7'') \<noteq> []"
    by (simp add: scenario_defs)
  from select_unknown_clears [OF h] a b h show ?thesis by blast
qed

text \<open>
  Claim C7, as stated, fails. Selecting an identifier that names no shape leaves a
  collection of one shape with no selected shape, and two shapes that carry the same
  identifier (two \<open>Start\<close> operations within the same clock tick) are both selected.
\<close>

theorem select_exactly_one_counterexample:
  "elements (handleSelect (run initialState
      [Start (canvasPointer 100 100) canvasAtOrigin ''1'', Commit]) ''2'') \<noteq> [] \<and>
   length (filter selected (elements (handleSelect (run initialState
      [Start (canvasPointer 100 100) canvasAtOrigin ''1'', Commit]) ''2''))) = 0 \<and>
   length (filter selected (elements (handleSelect (run initialState
      [Start (canvasPointer 100 100) canvasAtOrigin ''1'', Commit,
       Start (canvasPointer 200 200) canvasAtOrigin ''1'', Commit]) ''1''))) = 2"
  by (simp add: scenario_defs)

lemma count_id_distinct:
  "distinct (map el_id els) \<Longrightarrow>
   length (filter (\<lambda>el. el_id el = i) els) = (if i \<in> set (map el_id els) then 1 else 0)"
proof (induction els)
  case Nil
  then show ?case by simp
next
  case (Cons a els)
  show ?case
  proof (cases "el_id a = i")
    case True
    with Cons.prems have "i \<notin> set (map el_id els)"
      by simp
    with True Cons show ?thesis by simp
  next
    case False
    with Cons show ?thesis by auto
  qed
qed

lemma filter_selected_map:
  "length (filter selected (map (\<lambda>el. el\<lparr>selected := (el_id el = i)\<rparr>) els)) =
   length (filter (\<lambda>el. el_id el = i) els)"
  by (induction els) simp_all

text \<open>
  Claim C7, amended. \<open>handleSelect\<close> sets the selected flag of every shape to whether its
  identifier equals the given one, and changes neither another attribute nor the order.
  When the identifiers of the collection are pairwise distinct, exactly one shape is
  selected afterwards if the identifier names a shape of the collection, and none
  otherwise; so at most one shape is selected.
\<close>

theorem select_marks_matching:
  "handleSelect s i = s\<lparr>elements := map (\<lambda>el. el\<lparr>selected := (el_id el = i)\<rparr>) (elements s)\<rparr> \<and>
   map selected (elements (handleSelect s i)) = map (\<lambda>el. el_id el = i) (elements s) \<and>
   (distinct (map el_id (elements s)) \<longrightarrow>
      length (filter selected (elements (handleSelect s i))) =
        (if i \<in> set (map el_id (elements s)) then 1 else 0))"
proof -
  have "length (filter selected (elements (handleSelect s i))) =
        length (filter (\<lambda>el. el_id el = i) (elements s))"
    unfolding handleSelect_def using filter_selected_map [of i "elements s"] by simp
  then show ?thesis
    by (simp add: count_id_distinct) (simp add: handleSelect_def)
qed

theorem select_marks_matching_witness:
  "distinct (map el_id (elements (run initialState
      [Start (canvasPointer 100 100) canvasAtOrigin ''1'', Commit,
       Start (canvasPointer 200 200) canvasAtOrigin ''2'', Commit, SelectAt ''1'']))) \<and>
   map selected (elements (handleSelect (run initialState
      [Start (canvasPointer 100 100) canvasAtOrigin ''1'', Commit,
       Start (canvasPointer 200 200) canvasAtOrigin ''2'', Commit, SelectAt ''1'']) ''2'')) =
     [False, True] \<and>
   length (filter selected (elements (handleSelect (run initialState
      [Start (canvasPointer 100 100) canvasAtOrigin ''1'', Commit,
       Start (canvasPointer 200 200) canvasAtOrigin ''2'', Commit, SelectAt ''1'']) ''2''))) = 1"
proof -
  let ?s = "run initialState
      [Start (canvasPointer 100 100) canvasAtOrigin ''1'', Commit,
       Start (canvasPointer 200 200) canvasAtOrigin ''2'', Commit, SelectAt ''1'']"
  have e: "map el_id (elements ?s) = [''1'', ''2'']"
    by (simp add: scenario_defs)
  then have d: "distinct (map el_id (elements ?s))"
    by simp
  have m: "map (\<lambda>el. el_id el = ''2'') (elements ?s) = [False, True]"
    by (simp add: scenario_defs)
  from e have i: "''2'' \<in> set (map el_id (elements ?s))"
    by simp
  from select_marks_matching [of ?s "''2''", THEN conjunct2] d i m show ?thesis
    by simp
qed

section \<open>Draw and drag sessions\<close>

text \<open>
  Claim C2, as stated, fails. With a drawing in progress (the pointer went down on the
  canvas and no \<open>Commit\<close> followed), \<open>handleDragStart\<close> on the existing shape changes the
  state; with a drag active (no \<open>EndDrag\<close> followed), \<open>handleMouseDown\<close> on the canvas
  changes the state.
\<close>

theorem exclusivity_counterexample:
  "drawing (run initialState [Start (canvasPointer 100 100) canvasAtOrigin ''1'']) \<and>
   handleDragStart (run initialState [Start (canvasPointer 100 100) canvasAtOrigin ''1''])
       (shapePointer 100 100 0 0) ''1''
     \<noteq> run initialState [Start (canvasPointer 100 100) canvasAtOrigin ''1''] \<and>
   dragId (run initialState
       [Start (canvasPointer 100 100) canvasAtOrigin ''1'', Commit,
        BeginDrag (shapePointer 100 100 0 0) ''1'']) = Some ''1'' \<and>
   handleMouseDown (run initialState
       [Start (canvasPointer 100 100) canvasAtOrigin ''1'', Commit,
        BeginDrag (shapePointer 100 100 0 0) ''1''])
       (canvasPointer 400 300) canvasAtOrigin ''2''
     \<noteq> run initialState
       [Start (canvasPointer 100 100) canvasAtOrigin ''1'', Commit,
        BeginDrag (shapePointer 100 100 0 0) ''1'']"
  by (simp add: scenario_defs)

lemma find_known_id:
  "i \<in> set (map el_id els) \<Longrightarrow> \<exists>el. find (\<lambda>el. el_id el = i) els = Some el"
  by (cases "find (\<lambda>el. el_id el = i) els") (auto simp: find_None_iff)

text \<open>
  Claim C2, amended. While a drawing is in progress, \<open>handleDragStart\<close> on a shape of the
  collection is accepted: it records the identifier and the offset of the pointer and leaves
  the collection and the drawing flag as they are. While a drag is active,
  \<open>handleMouseDown\<close> on the canvas is accepted: it appends one new shape of the current
  kind at the pointer, with width and height \<open>0\<close> (a line with its far endpoint on its
  start), the current appearance and the selected flag off, and sets the drawing flag; the
  shapes already there, the drag identifier and the offset stay as they are.
\<close>

theorem sessions_not_exclusive:
  "(drawing s \<and> i \<in> set (map el_id (elements s)) \<longrightarrow>
      handleDragStart s e i =
        s\<lparr>dragId := Some i, offset := \<lparr>off_x = offsetX e, off_y = offsetY e\<rparr>\<rparr>) \<and>
   (dragId s = Some d \<and> targetIsCanvas e \<longrightarrow>
      handleMouseDown s e rect now =
        s\<lparr>elements :=
            elements s @
              [\<lparr>el_id = now, el_type = currentShape s,
                el_x = clientX e - rect_left rect, el_y = clientY e - rect_top rect,
                width = 0, height = 0,
                color = app_color (appearance s),
                background = app_background (appearance s),
                lineStyle = app_lineStyle (appearance s),
                lineWidth = app_lineWidth (appearance s),
                selected = False,
                x2 = (if currentShape s = Line then Some (clientX e - rect_left rect) else None),
                y2 = (if currentShape s = Line then Some (clientY e - rect_top rect) else None)\<rparr>],
          drawing := True\<rparr> \<and>
      length (elements (handleMouseDown s e rect now)) = Suc (length (elements s)) \<and>
      butlast (elements (handleMouseDown s e rect now)) = elements s \<and>
      el_id (last (elements (handleMouseDown s e rect now))) = now \<and>
      drawing (handleMouseDown s e rect now) \<and>
      dragId (handleMouseDown s e rect now) = Some d \<and>
      offset (handleMouseDown s e rect now) = offset s)"
proof -
  have "handleDragStart s e i =
        s\<lparr>dragId := Some i, offset := \<lparr>off_x = offsetX e, off_y = offsetY e\<rparr>\<rparr>"
    if "i \<in> set (map el_id (elements s))"
    using find_known_id [OF that] by (auto simp: handleDragStart_def)
  then show ?thesis
    by (simp add: handleMouseDown_def Let_def)
qed

theorem sessions_not_exclusive_witness:
  "drawing (run initialState [Start (canvasPointer 100 100) canvasAtOrigin ''1'']) \<and>
   ''1'' \<in> set (map el_id (elements (run initialState
       [Start (canvasPointer 100 100) canvasAtOrigin ''1'']))) \<and>
   dragId (handleDragStart (run initialState [Start (canvasPointer 100 100) canvasAtOrigin ''1''])
       (shapePointer 100 100 3 4) ''1'') = Some ''1'' \<and>
   offset (handleDragStart (run initialState [Start (canvasPointer 100 100) canvasAtOrigin ''1''])
       (shapePointer 100 100 3 4) ''1'') = \<lparr>off_x = 3, off_y = 4\<rparr> \<and>
   dragId (run initialState
       [Start (canvasPointer 100 100) canvasAtOrigin ''1'', Commit, ChooseShape Line,
        BeginDrag (shapePointer 100 100 3 4) ''1'']) = Some ''1'' \<and>
   targetIsCanvas (canvasPointer 400 300) \<and>
   elements (handleMouseDown (run initialState
       [Start (canvasPointer 100 100) canvasAtOrigin ''1'', Commit, ChooseShape Line,
        BeginDrag (shapePointer 100 100 3 4) ''1''])
       (canvasPointer 400 300) canvasAtOrigin ''2'') =
     [\<lparr>el_id = ''1'', el_type = Rectangle, el_x = 100, el_y = 100, width = 0, height = 0,
       color = ''#000000'', background = ''#ffffff'', lineStyle = Solid, lineWidth = 2,
       selected = False, x2 = None, y2 = None\<rparr>,
      \<lparr>el_id = ''2'', el_type = Line, el_x = 400, el_y = 300, width = 0, height = 0,
       color = ''#000000'', background = ''#ffffff'', lineStyle = Solid, lineWidth = 2,
       selected = False, x2 = Some 400, y2 = Some 300\<rparr>] \<and>
   drawing (handleMouseDown (run initialState
       [Start (canvasPointer 100 100) canvasAtOrigin ''1'', Commit, ChooseShape Line,
        BeginDrag (shapePointer 100 100 3 4) ''1''])
       (canvasPointer 400 300) canvasAtOrigin ''2'') \<and>
   dragId (handleMouseDown (run initialState
       [Start (canvasPointer 100 100) canvasAtOrigin ''1'', Commit, ChooseShape Line,
        BeginDrag (shapePointer 100 100 3 4) ''1''])
       (canvasPointer 400 300) canvasAtOrigin ''2'') = Some ''1'' \<and>
   offset (handleMouseDown (run initialState
       [Start (canvasPointer 100 100) canvasAtOrigin ''1'', Commit, ChooseShape Line,
        BeginDrag (shapePointer 100 100 3 4) ''1''])
       (canvasPointer 400 300) canvasAtOrigin ''2'') = \<lparr>off_x = 3, off_y = 4\<rparr>"
proof -
  let ?a = "run initialState [Start (canvasPointer 100 100) canvasAtOrigin ''1'']"
  let ?b = "run initialState
       [Start (canvasPointer 100 100) canvasAtOrigin ''1'', Commit, ChooseShape Line,
        BeginDrag (shapePointer 100 100 3 4) ''1'']"
  have a: "drawing ?a \<and> ''1'' \<in> set (map el_id (elements ?a))"
    by (simp add: scenario_defs)
  have b: "dragId ?b = Some ''1'' \<and> targetIsCanvas (canvasPointer 400 300)"
    by (simp add: scenario_defs)
  have sb: "?b = \<lparr>elements =
      [\<lparr>el_id = ''1'', el_type = Rectangle, el_x = 100, el_y = 100, width = 0, height = 0,
        color = ''#000000'', background = ''#ffffff'', lineStyle = Solid, lineWidth = 2,
        selected = False, x2 = None, y2 = None\<rparr>],
      currentShape = Line, drawing = False, appearance = defaultAppearance,
      dragId = Some ''1'', offset = \<lparr>off_x = 3, off_y = 4\<rparr>\<rparr>"
    by (simp add: scenario_defs)
  note t1 = sessions_not_exclusive [of ?a "''1''" "shapePointer 100 100 3 4", THEN conjunct1,
      rule_format, OF a]
  note t2 = sessions_not_exclusive [where s = ?b and d = "''1''" and e = "canvasPointer 400 300"
      and rect = canvasAtOrigin and now = "''2''", THEN conjunct2, rule_format, OF b,
      THEN conjunct1]
  have c: "dragId (handleDragStart ?a (shapePointer 100 100 3 4) ''1'') = Some ''1'' \<and>
      offset (handleDragStart ?a (shapePointer 100 100 3 4) ''1'') = \<lparr>off_x = 3, off_y = 4\<rparr>"
    unfolding t1 by (simp add: shapePointer_def)
  have d: "elements (handleMouseDown ?b (canvasPointer 400 300) canvasAtOrigin ''2'') =
     [\<lparr>el_id = ''1'', el_type = Rectangle, el_x = 100, el_y = 100, width = 0, height = 0,
       color = ''#000000'', background = ''#ffffff'', lineStyle = Solid, lineWidth = 2,
       selected = False, x2 = None, y2 = None\<rparr>,
      \<lparr>el_id = ''2'', el_type = Line, el_x = 400, el_y = 300, width = 0, height = 0,
       color = ''#000000'', background = ''#ffffff'', lineStyle = Solid, lineWidth = 2,
       selected = False, x2 = Some 400, y2 = Some 300\<rparr>] \<and>
     drawing (handleMouseDown ?b (canvasPointer 400 300) canvasAtOrigin ''2'') \<and>
     dragId (handleMouseDown ?b (canvasPointer 400 300) canvasAtOrigin ''2'') = Some ''1'' \<and>
     offset (handleMouseDown ?b (canvasPointer 400 300) canvasAtOrigin ''2'') =
       \<lparr>off_x = 3, off_y = 4\<rparr>"
    unfolding t2 unfolding sb
    by (simp add: canvasPointer_def canvasAtOrigin_def defaultAppearance_def)
  from a b c d show ?thesis
    by blast
qed

section \<open>Dragging keeps the size\<close>

lemma attrs_dragElement:
  "el_id (dragElement d x y el) = el_id el \<and> el_type (dragElement d x y el) = el_type el \<and>
   width (dragElement d x y el) = width el \<and> height (dragElement d x y el) = height el"
  by (simp add: dragElement_def Let_def split: option.split)

lemma extent_handleDragMove:
  "map (\<lambda>el. (el_id el, el_type el, width el, height el)) (elements (handleDragMove s e rect)) =
   map (\<lambda>el. (el_id el, el_type el, width el, height el)) (elements s)"
  by (simp add: handleDragMove_def Let_def attrs_dragElement split: option.split)

lemma extent_dragMoves:
  "map (\<lambda>el. (el_id el, el_type el, width el, height el))
     (elements (foldl applyOp s (map (\<lambda>(e, rect). DragTo e rect) moves))) =
   map (\<lambda>el. (el_id el, el_type el, width el, height el)) (elements s)"
  by (induction moves arbitrary: s) (simp_all add: extent_handleDragMove split: prod.split)

text \<open>
  Claim C4. A drag that begins in any state, moves the pointer any number of times and ends
  leaves the width and the height of every shape as they were when it began, shape by shape
  in the order of the collection; identifiers and kinds stay as well.
\<close>

theorem drag_preserves_extent:
  "map (\<lambda>el. (el_id el, el_type el, width el, height el))
     (elements (run s (BeginDrag e i # map (\<lambda>(e, rect). DragTo e rect) moves @ [EndDrag]))) =
   map (\<lambda>el. (el_id el, el_type el, width el, height el)) (elements s)"
proof -
  have "elements (handleDragStart s e i) = elements s"
    by (simp add: handleDragStart_def split: option.split)
  then show ?thesis
    by (simp add: run_def extent_dragMoves handleDragEnd_def)
qed

theorem drag_preserves_extent_witness:
  "map (\<lambda>el. (el_id el, el_type el, width el, height el))
     (elements (run (run initialState
          [Start (canvasPointer 100 100) canvasAtOrigin ''1'',
           Update (canvasPointer 50 160) canvasAtOrigin, Commit])
        (BeginDrag (shapePointer 60 110 10 10) ''1'' #
         map (\<lambda>(e, rect). DragTo e rect)
           [(canvasPointer 900 700, canvasAtOrigin), (canvasPointer (- 30) 5, canvasAtOrigin)] @
         [EndDrag]))) =
   [(''1'', Rectangle, - 50, 60)]"
proof -
  have "map (\<lambda>el. (el_id el, el_type el, width el, height el))
     (elements (run initialState
          [Start (canvasPointer 100 100) canvasAtOrigin ''1'',
           Update (canvasPointer 50 160) canvasAtOrigin, Commit])) = [(''1'', Rectangle, - 50, 60)]"
    by (simp add: scenario_defs)
  then show ?thesis
    unfolding drag_preserves_extent .
qed

section \<open>Dragging a rectangle or a circle\<close>

lemma dragElement_box:
  "el_id el = d \<Longrightarrow> el_type el \<noteq> Line \<Longrightarrow>
   dragElement d x y el =
     el\<lparr>el_x := dragBoxAxis x (width el) CANVAS_WIDTH,
        el_y := dragBoxAxis y (height el) CANVAS_HEIGHT\<rparr>"
  by (simp add: dragElement_def Let_def)

text \<open>
  Claim C5. While a drag of a rectangle or a circle is active, \<open>handleDragMove\<close> takes the
  pointer minus the stored offset as the candidate origin and, on each axis, clamps it to
  \<open>[0, dimension - extent]\<close> when the extent is not negative; when the extent is negative
  it clamps the candidate to \<open>[0, dimension]\<close> and then sets it to minus the extent if
  origin plus extent is below \<open>0\<close>. Nothing else of the shape changes. The rectangle at
  \<open>(10,10)\<close> of size \<open>50 \<times> 50\<close> dragged to the candidate \<open>x = -100\<close> ends at \<open>x = 0\<close> with
  width \<open>50\<close>; the circle anchored at \<open>(300,300)\<close> with extent \<open>(-40,-40)\<close> dragged beyond the
  top left corner ends at \<open>(40,40)\<close>, where origin plus extent is \<open>0\<close>, with its extent as
  before.
\<close>

theorem drag_box_origin:
  "(\<forall>s e rect d k.
      dragId s = Some d \<and> d \<noteq> [] \<and> k < length (elements s) \<and>
      el_id (elements s ! k) = d \<and> el_type (elements s ! k) \<noteq> Line \<longrightarrow>
      length (elements (handleDragMove s e rect)) = length (elements s) \<and>
      elements (handleDragMove s e rect) ! k =
        (elements s ! k)
          \<lparr>el_x :=
             (let c = clientX e - rect_left rect - off_x (offset s);
                  w = width (elements s ! k)
              in if 0 \<le> w then clamp c 0 (CANVAS_WIDTH - w)
                 else if clamp c 0 CANVAS_WIDTH + w < 0 then - w
                 else clamp c 0 CANVAS_WIDTH),
           el_y :=
             (let c = clientY e - rect_top rect - off_y (offset s);
                  h = height (elements s ! k)
              in if 0 \<le> h then clamp c 0 (CANVAS_HEIGHT - h)
                 else if clamp c 0 CANVAS_HEIGHT + h < 0 then - h
                 else clamp c 0 CANVAS_HEIGHT)\<rparr>) \<and>
   elements (run initialState
     [Start (canvasPointer 10 10) canvasAtOrigin ''1'',
      Update (canvasPointer 60 60) canvasAtOrigin,
      Commit,
      BeginDrag (shapePointer 15 15 5 5) ''1'',
      DragTo (canvasPointer (- 95) 15) canvasAtOrigin]) =
     [\<lparr>el_id = ''1'', el_type = Rectangle, el_x = 0, el_y = 10, width = 50, height = 50,
       color = ''#000000'', background = ''#ffffff'', lineStyle = Solid, lineWidth = 2,
       selected = False, x2 = None, y2 = None\<rparr>] \<and>
   elements (run initialState
     [ChooseShape Circle,
      Start (canvasPointer 300 300) canvasAtOrigin ''1'',
      Update (canvasPointer 260 260) canvasAtOrigin,
      Commit,
      BeginDrag (shapePointer 300 300 0 0) ''1'',
      DragTo (canvasPointer (- 5) (- 5)) canvasAtOrigin,
      EndDrag]) =
     [\<lparr>el_id = ''1'', el_type = Circle, el_x = 40, el_y = 40, width = - 40, height = - 40,
       color = ''#000000'', background = ''#ffffff'', lineStyle = Solid, lineWidth = 2,
       selected = False, x2 = None, y2 = None\<rparr>]"
proof (intro conjI allI impI)
  fix s :: AppState and e :: MouseEvent and rect :: DOMRect and d :: string and k :: nat
  assume h: "dragId s = Some d \<and> d \<noteq> [] \<and> k < length (elements s) \<and>
      el_id (elements s ! k) = d \<and> el_type (elements s ! k) \<noteq> Line"
  then show "length (elements (handleDragMove s e rect)) = length (elements s)"
    by (simp add: handleDragMove_def Let_def)
  from h have "elements (handleDragMove s e rect) ! k =
      dragElement d (clientX e - rect_left rect - off_x (offset s))
        (clientY e - rect_top rect - off_y (offset s)) (elements s ! k)"
    by (simp add: handleDragMove_def Let_def)
  also from h have "\<dots> = (elements s ! k)
     \<lparr>el_x := dragBoxAxis (clientX e - rect_left rect - off_x (offset s))
                (width (elements s ! k)) CANVAS_WIDTH,
      el_y := dragBoxAxis (clientY e - rect_top rect - off_y (offset s))
                (height (elements s ! k)) CANVAS_HEIGHT\<rparr>"
    by (simp add: dragElement_box)
  finally show "elements (handleDragMove s e rect) ! k =
        (elements s ! k)
          \<lparr>el_x :=
             (let c = clientX e - rect_left rect - off_x (offset s);
                  w = width (elements s ! k)
              in if 0 \<le> w then clamp c 0 (CANVAS_WIDTH - w)
                 else if clamp c 0 CANVAS_WIDTH + w < 0 then - w
                 else clamp c 0 CANVAS_WIDTH),
           el_y :=
             (let c = clientY e - rect_top rect - off_y (offset s);
                  h = height (elements s ! k)
              in if 0 \<le> h then clamp c 0 (CANVAS_HEIGHT - h)
                 else if clamp c 0 CANVAS_HEIGHT + h < 0 then - h
                 else clamp c 0 CANVAS_HEIGHT)\<rparr>"
    by (simp add: dragBoxAxis_def Let_def)
next
  show "elements (run initialState
     [Start (canvasPointer 10 10) canvasAtOrigin ''1'',
      Update (canvasPointer 60 60) canvasAtOrigin,
      Commit,
      BeginDrag (shapePointer 15 15 5 5) ''1'',
      DragTo (canvasPointer (- 95) 15) canvasAtOrigin]) =
     [\<lparr>el_id = ''1'', el_type = Rectangle, el_x = 0, el_y = 10, width = 50, height = 50,
       color = ''#000000'', background = ''#ffffff'', lineStyle = Solid, lineWidth = 2,
       selected = False, x2 = None, y2 = None\<rparr>]"
    by (simp add: scenario_defs)
next
  show "elements (run initialState
     [ChooseShape Circle,
      Start (canvasPointer 300 300) canvasAtOrigin ''1'',
      Update (canvasPointer 260 260) canvasAtOrigin,
      Commit,
      BeginDrag (shapePointer 300 300 0 0) ''1'',
      DragTo (canvasPointer (- 5) (- 5)) canvasAtOrigin,
      EndDrag]) =
     [\<lparr>el_id = ''1'', el_type = Circle, el_x = 40, el_y = 40, width = - 40, height = - 40,
       color = ''#000000'', background = ''#ffffff'', lineStyle = Solid, lineWidth = 2,
       selected = False, x2 = None, y2 = None\<rparr>]"
    by (simp add: scenario_defs)
qed

theorem drag_box_origin_witness:
  "dragId (run initialState
     [Start (canvasPointer 10 10) canvasAtOrigin ''1'',
      Update (canvasPointer 60 60) canvasAtOrigin,
      Commit,
      BeginDrag (shapePointer 15 15 5 5) ''1'']) = Some ''1'' \<and>
   el_type (elements (run initialState
     [Start (canvasPointer 10 10) canvasAtOrigin ''1'',
      Update (canvasPointer 60 60) canvasAtOrigin,
      Commit,
      BeginDrag (shapePointer 15 15 5 5) ''1'']) ! 0) = Rectangle \<and>
   el_x (elements (handleDragMove (run initialState
     [Start (canvasPointer 10 10) canvasAtOrigin ''1'',
      Update (canvasPointer 60 60) canvasAtOrigin,
      Commit,
      BeginDrag (shapePointer 15 15 5 5) ''1'']) (canvasPointer 900 15) canvasAtOrigin) ! 0) = 750 \<and>
   width (elements (handleDragMove (run initialState
     [Start (canvasPointer 10 10) canvasAtOrigin ''1'',
      Update (canvasPointer 60 60) canvasAtOrigin,
      Commit,
      BeginDrag (shapePointer 15 15 5 5) ''1'']) (canvasPointer 900 15) canvasAtOrigin) ! 0) = 50"
proof -
  let ?s = "run initialState
     [Start (canvasPointer 10 10) canvasAtOrigin ''1'',
      Update (canvasPointer 60 60) canvasAtOrigin,
      Commit,
      BeginDrag (shapePointer 15 15 5 5) ''1'']"
  have s: "?s = \<lparr>elements =
      [\<lparr>el_id = ''1'', el_type = Rectangle, el_x = 10, el_y = 10, width = 50, height = 50,
        color = ''#000000'', background = ''#ffffff'', lineStyle = Solid, lineWidth = 2,
        selected = False, x2 = None, y2 = None\<rparr>],
      currentShape = Rectangle, drawing = False, appearance = defaultAppearance,
      dragId = Some ''1'', offset = \<lparr>off_x = 5, off_y = 5\<rparr>\<rparr>"
    by (simp add: scenario_defs)
  have h: "dragId ?s = Some ''1'' \<and> ''1'' \<noteq> [] \<and> 0 < length (elements ?s) \<and>
      el_id (elements ?s ! 0) = ''1'' \<and> el_type (elements ?s ! 0) \<noteq> Line"
    unfolding s by simp
  note t = drag_box_origin [THEN conjunct1, rule_format,
      where s = ?s and d = "''1''" and k = 0 and e = "canvasPointer 900 15"
        and rect = canvasAtOrigin, OF h, THEN conjunct2]
  show ?thesis
    unfolding t unfolding s
    by (simp add: canvasPointer_def canvasAtOrigin_def clamp_def CANVAS_WIDTH_def CANVAS_HEIGHT_def)
qed

section \<open>Updating the shape that is being drawn\<close>

lemma clamp_idem: "0 \<le> dim \<Longrightarrow> clamp (clamp v 0 dim) 0 dim = clamp v 0 dim"
  by (simp add: clamp_def)

lemma circle_extent:
  "(let w0 = x - a;
        w1 = (if a + w0 > dim then dim - a else w0)
    in if a + w1 < 0 then - a else w1) = clampExtentToCanvas a x dim"
  by (auto simp: clampExtentToCanvas_def Let_def max_def min_def)

lemma rectangle_extent:
  "clamp (x - a) (- a) (dim - a) = clampExtentToCanvas a x dim"
  by (auto simp: clampExtentToCanvas_def clamp_def Let_def max_def min_def)

lemma updateLast_spec:
  assumes "prev \<noteq> []"
  shows "updateLast x y prev =
     butlast prev @
       [if el_type (last prev) = Line
        then (last prev)\<lparr>x2 := Some (clamp x 0 CANVAS_WIDTH), y2 := Some (clamp y 0 CANVAS_HEIGHT)\<rparr>
        else (last prev)
               \<lparr>width := clampExtentToCanvas (el_x (last prev)) x CANVAS_WIDTH,
                height := clampExtentToCanvas (el_y (last prev)) y CANVAS_HEIGHT\<rparr>]"
proof -
  consider (l) "el_type (last prev) = Line" | (c) "el_type (last prev) = Circle"
    | (r) "el_type (last prev) = Rectangle"
    by (cases "el_type (last prev)") auto
  then show ?thesis
  proof cases
    case l
    with assms show ?thesis by (simp add: updateLast_def Let_def)
  next
    case c
    with assms show ?thesis
      using circle_extent [of x "el_x (last prev)" CANVAS_WIDTH]
        circle_extent [of y "el_y (last prev)" CANVAS_HEIGHT]
      by (simp add: updateLast_def Let_def)
  next
    case r
    with assms show ?thesis
      by (simp add: updateLast_def Let_def rectangle_extent)
  qed
qed

text \<open>
  Claim C6. While a drawing is in progress and the collection is not empty,
  \<open>handleMouseMove\<close> clamps the pointer to \<open>[0,800] \<times> [0,600]\<close> and rewrites the last shape
  only: a line gets the clamped pointer as its far endpoint and keeps its start; a rectangle
  or a circle gets the signed extent from its anchor to the clamped pointer, with the edge
  capped at the canvas dimension first and floored at \<open>0\<close> second. Every other shape and the
  rest of the state stay as they are. A rectangle started at \<open>(100,100)\<close> and updated to
  \<open>(50,50)\<close> has width and height \<open>-50\<close> at the anchor \<open>(100,100)\<close>; a line started at
  \<open>(790,10)\<close> and updated to \<open>(850,10)\<close> has the far endpoint \<open>(800,10)\<close> and the start
  \<open>(790,10)\<close>.
\<close>

theorem update_sets_last_shape:
  "(\<forall>s e rect.
      drawing s \<and> elements s \<noteq> [] \<longrightarrow>
      handleMouseMove s e rect =
        s\<lparr>elements :=
            butlast (elements s) @
              [let lst = last (elements s);
                   px = clamp (clientX e - rect_left rect) 0 CANVAS_WIDTH;
                   py = clamp (clientY e - rect_top rect) 0 CANVAS_HEIGHT
               in if el_type lst = Line then lst\<lparr>x2 := Some px, y2 := Some py\<rparr>
                  else lst\<lparr>width := clampExtentToCanvas (el_x lst) px CANVAS_WIDTH,
                           height := clampExtentToCanvas (el_y lst) py CANVAS_HEIGHT\<rparr>]\<rparr>) \<and>
   elements (run initialState
     [Start (canvasPointer 100 100) canvasAtOrigin ''1'',
      Update (canvasPointer 50 50) canvasAtOrigin]) =
     [\<lparr>el_id = ''1'', el_type = Rectangle, el_x = 100, el_y = 100, width = - 50, height = - 50,
       color = ''#000000'', background = ''#ffffff'', lineStyle = Solid, lineWidth = 2,
       selected = False, x2 = None, y2 = None\<rparr>] \<and>
   elements (run initialState
     [ChooseShape Line,
      Start (canvasPointer 790 10) canvasAtOrigin ''1'',
      Update (canvasPointer 850 10) canvasAtOrigin]) =
     [\<lparr>el_id = ''1'', el_type = Line, el_x = 790, el_y = 10, width = 0, height = 0,
       color = ''#000000'', background = ''#ffffff'', lineStyle = Solid, lineWidth = 2,
       selected = False, x2 = Some 800, y2 = Some 10\<rparr>]"
proof (intro conjI allI impI)
  fix s :: AppState and e :: MouseEvent and rect :: DOMRect
  assume h: "drawing s \<and> elements s \<noteq> []"
  have w: "0 \<le> CANVAS_WIDTH" "0 \<le> CANVAS_HEIGHT"
    by (simp_all add: CANVAS_WIDTH_def CANVAS_HEIGHT_def)
  from h show "handleMouseMove s e rect =
        s\<lparr>elements :=
            butlast (elements s) @
              [let lst = last (elements s);
                   px = clamp (clientX e - rect_left rect) 0 CANVAS_WIDTH;
                   py = clamp (clientY e - rect_top rect) 0 CANVAS_HEIGHT
               in if el_type lst = Line then lst\<lparr>x2 := Some px, y2 := Some py\<rparr>
                  else lst\<lparr>width := clampExtentToCanvas (el_x lst) px CANVAS_WIDTH,
                           height := clampExtentToCanvas (el_y lst) py CANVAS_HEIGHT\<rparr>]\<rparr>"
    by (simp add: handleMouseMove_def Let_def updateLast_spec clamp_idem [OF w(1)] clamp_idem [OF w(2)])
next
  show "elements (run initialState
     [Start (canvasPointer 100 100) canvasAtOrigin ''1'',
      Update (canvasPointer 50 50) canvasAtOrigin]) =
     [\<lparr>el_id = ''1'', el_type = Rectangle, el_x = 100, el_y = 100, width = - 50, height = - 50,
       color = ''#000000'', background = ''#ffffff'', lineStyle = Solid, lineWidth = 2,
       selected = False, x2 = None, y2 = None\<rparr>]"
    by (simp add: scenario_defs)
next
  show "elements (run initialState
     [ChooseShape Line,
      Start (canvasPointer 790 10) canvasAtOrigin ''1'',
      Update (canvasPointer 850 10) canvasAtOrigin]) =
     [\<lparr>el_id = ''1'', el_type = Line, el_x = 790, el_y = 10, width = 0, height = 0,
       color = ''#000000'', background = ''#ffffff'', lineStyle = Solid, lineWidth = 2,
       selected = False, x2 = Some 800, y2 = Some 10\<rparr>]"
    by (simp add: scenario_defs)
qed

theorem update_sets_last_shape_witness:
  "drawing (run initialState
     [Start (canvasPointer 30 40) canvasAtOrigin ''1'', Commit, ChooseShape Circle,
      Start (canvasPointer 700 500) canvasAtOrigin ''2'']) \<and>
   elements (run initialState
     [Start (canvasPointer 30 40) canvasAtOrigin ''1'', Commit, ChooseShape Circle,
      Start (canvasPointer 700 500) canvasAtOrigin ''2'']) \<noteq> [] \<and>
   map (\<lambda>el. (el_id el, el_x el, el_y el, width el, height el))
     (elements (handleMouseMove (run initialState
       [Start (canvasPointer 30 40) canvasAtOrigin ''1'', Commit, ChooseShape Circle,
        Start (canvasPointer 700 500) canvasAtOrigin ''2''])
       (canvasPointer 950 (- 70)) canvasAtOrigin)) =
     [(''1'', 30, 40, 0, 0), (''2'', 700, 500, 100, - 500)]"
proof -
  let ?s = "run initialState
     [Start (canvasPointer 30 40) canvasAtOrigin ''1'', Commit, ChooseShape Circle,
      Start (canvasPointer 700 500) canvasAtOrigin ''2'']"
  have s: "?s = \<lparr>elements =
      [\<lparr>el_id = ''1'', el_type = Rectangle, el_x = 30, el_y = 40, width = 0, height = 0,
        color = ''#000000'', background = ''#ffffff'', lineStyle = Solid, lineWidth = 2,
        selected = False, x2 = None, y2 = None\<rparr>,
       \<lparr>el_id = ''2'', el_type = Circle, el_x = 700, el_y = 500, width = 0, height = 0,
        color = ''#000000'', background = ''#ffffff'', lineStyle = Solid, lineWidth = 2,
        selected = False, x2 = None, y2 = None\<rparr>],
      currentShape = Circle, drawing = True, appearance = defaultAppearance,
      dragId = None, offset = \<lparr>off_x = 0, off_y = 0\<rparr>\<rparr>"
    by (simp add: scenario_defs)
  have h: "drawing ?s \<and> elements ?s \<noteq> []"
    unfolding s by simp
  note t = update_sets_last_shape [THEN conjunct1, rule_format,
      where s = ?s and e = "canvasPointer 950 (- 70)" and rect = canvasAtOrigin, OF h]
  show ?thesis
    unfolding t unfolding s
    by (simp add: canvasPointer_def canvasAtOrigin_def clamp_def clampExtentToCanvas_def
        CANVAS_WIDTH_def CANVAS_HEIGHT_def)
qed

section \<open>Dragging a line\<close>

text \<open>
  What \<open>handleDragMove\<close> does to a line with both far coordinates: the anchor is the
  clamped candidate, and the far endpoint is the old far endpoint moved by the displacement
  of the anchor and clamped on its own. The two compensation branches test the far
  coordinate after it has been clamped, so neither is ever taken.
\<close>

lemma dragLineAxis_dead_branches:
  "0 \<le> dim \<Longrightarrow> dragLineAxis n a far dim = (n, clamp (far + (n - a)) 0 dim)"
  by (auto simp: dragLineAxis_def Let_def clamp_def max_def min_def)

lemma dragElement_line:
  assumes "el_id el = d" "el_type el = Line" "x2 el = Some ex2" "y2 el = Some ey2"
  shows "dragElement d x y el =
     el\<lparr>el_x := clamp x 0 CANVAS_WIDTH,
        el_y := clamp y 0 CANVAS_HEIGHT,
        x2 := Some (clamp (ex2 + (clamp x 0 CANVAS_WIDTH - el_x el)) 0 CANVAS_WIDTH),
        y2 := Some (clamp (ey2 + (clamp y 0 CANVAS_HEIGHT - el_y el)) 0 CANVAS_HEIGHT)\<rparr>"
proof -
  have w: "0 \<le> CANVAS_WIDTH" "0 \<le> CANVAS_HEIGHT"
    by (simp_all add: CANVAS_WIDTH_def CANVAS_HEIGHT_def)
  from assms show ?thesis
    by (simp add: dragElement_def Let_def dragLineAxis_dead_branches [OF w(1)]
        dragLineAxis_dead_branches [OF w(2)])
qed

text \<open>
  Claim C3 at a concrete drag. The line from \<open>(100,100)\<close> to \<open>(700,100)\<close> is dragged with
  the candidate anchor \<open>(300,100)\<close>. The far endpoint would move to \<open>x = 900\<close> and is clamped
  to \<open>800\<close>; the anchor stays at \<open>300\<close>, so the line shrinks from \<open>600\<close> to \<open>500\<close>. The
  anchor compensated by the residual \<open>-100\<close> would be \<open>200\<close>, and the line from \<open>(200,100)\<close>
  to \<open>(800,100)\<close> lies within the canvas with its geometry as before.
\<close>

theorem line_drag_not_compensated:
  "elements (run initialState
     [ChooseShape Line,
      Start (canvasPointer 100 100) canvasAtOrigin ''1'',
      Update (canvasPointer 700 100) canvasAtOrigin,
      Commit,
      BeginDrag (shapePointer 100 100 0 0) ''1'']) =
     [\<lparr>el_id = ''1'', el_type = Line, el_x = 100, el_y = 100, width = 0, height = 0,
       color = ''#000000'', background = ''#ffffff'', lineStyle = Solid, lineWidth = 2,
       selected = False, x2 = Some 700, y2 = Some 100\<rparr>] \<and>
   elements (run initialState
     [ChooseShape Line,
      Start (canvasPointer 100 100) canvasAtOrigin ''1'',
      Update (canvasPointer 700 100) canvasAtOrigin,
      Commit,
      BeginDrag (shapePointer 100 100 0 0) ''1'',
      DragTo (canvasPointer 300 100) canvasAtOrigin]) =
     [\<lparr>el_id = ''1'', el_type = Line, el_x = 300, el_y = 100, width = 0, height = 0,
       color = ''#000000'', background = ''#ffffff'', lineStyle = Solid, lineWidth = 2,
       selected = False, x2 = Some 800, y2 = Some 100\<rparr>] \<and>
   inBounds
     \<lparr>el_id = ''1'', el_type = Line, el_x = 200, el_y = 100, width = 0, height = 0,
      color = ''#000000'', background = ''#ffffff'', lineStyle = Solid, lineWidth = 2,
      selected = False, x2 = Some 800, y2 = Some 100\<rparr>"
  by (simp add: scenario_defs inBounds_def within_def farX_def farY_def)

section \<open>Saving and then loading\<close>

lemma shapeTypeOfName_name: "shapeTypeOfName (shapeTypeName t) = Some t"
  by (cases t) (simp_all add: shapeTypeOfName_def)

lemma lineStyleOfName_name: "lineStyleOfName (lineStyleName l) = Some l"
  by (cases l) (simp_all add: lineStyleOfName_def)

lemma elementFromJSON_elementToJSON: "elementFromJSON (elementToJSON el) = Some el"
proof (cases "x2 el")
  case None
  then show ?thesis
    by (cases "y2 el")
       (simp_all add: elementFromJSON_def elementToJSON_def stringMember_def numberMember_def
          boolMember_def optionalNumberMember_def shapeTypeOfName_name lineStyleOfName_name)
next
  case (Some a)
  then show ?thesis
    by (cases "y2 el")
       (simp_all add: elementFromJSON_def elementToJSON_def stringMember_def numberMember_def
          boolMember_def optionalNumberMember_def shapeTypeOfName_name lineStyleOfName_name)
qed

lemma those_elements: "those (map elementFromJSON (map elementToJSON els)) = Some els"
  by (induction els) (simp_all add: elementFromJSON_elementToJSON)

text \<open>
  Claim C8. Loading right after saving puts the saved collection into the state: the same
  shapes with the same values of all thirteen attributes, in the same order, for every
  collection, state and previous content of the storage. Loading into the state that was
  saved gives that state back.
\<close>

theorem save_load_roundtrip:
  "handleLoad s' (handleSave s st) = Some (s'\<lparr>elements := elements s\<rparr>) \<and>
   handleLoad s (handleSave s st) = Some s"
  using those_elements [of "elements s"] by (simp add: handleLoad_def handleSave_def)

end
